theory Spec2Isabelle
  imports Complex_Main "HOL-Library.Word" "HOL-Library.Sublist"
begin

section \<open>Python values used by \<open>amb82_ble_service.py\<close>\<close>

text \<open>
  A Python \<open>str\<close> is a sequence of Unicode code points and a \<open>bytes\<close> object a sequence
  of octets. \<open>len\<close>, \<open>in\<close>, \<open>+\<close> and \<open>strip\<close> of the source work on code points, so a
  \<open>str\<close> is modelled as a list of code points and not as a list of 8-bit characters.
  Readings of \<open>time.time()\<close> are modelled as real numbers.
\<close>

type_synonym pystr = "nat list"
type_synonym pybytes = "8 word list"

definition str :: "string \<Rightarrow> pystr" where
  "str cs = map of_char cs"

definition ascii :: "string \<Rightarrow> pybytes" where
  "ascii cs = map of_char cs"

text \<open>Truthiness of an optional string: \<open>None\<close> and \<open>""\<close> are false.\<close>

fun truthy :: "pystr option \<Rightarrow> bool" where
  "truthy None = False"
| "truthy (Some t) = (t \<noteq> [])"

text \<open>
  What a called function does: it returns a value or raises. Every operation of the
  service is a function from the state to such an outcome and the state it leaves.
\<close>

datatype exn =
  NameError | AttributeError | UnicodeDecodeError | UnicodeEncodeError
| BleakError | OtherException

datatype 'a res = Returns 'a | Raises exn

subsection \<open>\<open>bytes.decode('utf-8')\<close> and \<open>str.encode('utf-8')\<close>\<close>

definition cont :: "nat \<Rightarrow> bool" where
  "cont b = (128 \<le> b \<and> b \<le> 191)"

text \<open>
  The range of the second octet after lead octet \<open>b0\<close>: narrower than a continuation
  octet after E0 and F0 (no overlong forms), after ED (no surrogates) and after F4
  (nothing above U+10FFFF).
\<close>

definition second_lo :: "nat \<Rightarrow> nat" where
  "second_lo b0 = (if b0 = 224 then 160 else if b0 = 240 then 144 else 128)"

definition second_hi :: "nat \<Rightarrow> nat" where
  "second_hi b0 = (if b0 = 237 then 159 else if b0 = 244 then 143 else 191)"

text \<open>
  Strict UTF-8 decoding of a list of octet values: shortest forms only, no surrogates,
  nothing above U+10FFFF. \<open>None\<close> is \<open>UnicodeDecodeError\<close>.
\<close>

fun utf8_dec :: "nat list \<Rightarrow> pystr option" where
  "utf8_dec [] = Some []"
| "utf8_dec (b0 # bs) =
     (if b0 < 128 then map_option ((#) b0) (utf8_dec bs)
      else if 194 \<le> b0 \<and> b0 \<le> 223 then
        (case bs of
           b1 # r \<Rightarrow>
             if cont b1
             then map_option ((#) ((b0 - 192) * 64 + (b1 - 128))) (utf8_dec r)
             else None
         | _ \<Rightarrow> None)
      else if 224 \<le> b0 \<and> b0 \<le> 239 then
        (case bs of
           b1 # b2 # r \<Rightarrow>
             if second_lo b0 \<le> b1 \<and> b1 \<le> second_hi b0 \<and> cont b2
             then map_option
                    ((#) ((b0 - 224) * 4096 + (b1 - 128) * 64 + (b2 - 128))) (utf8_dec r)
             else None
         | _ \<Rightarrow> None)
      else if 240 \<le> b0 \<and> b0 \<le> 244 then
        (case bs of
           b1 # b2 # b3 # r \<Rightarrow>
             if second_lo b0 \<le> b1 \<and> b1 \<le> second_hi b0 \<and> cont b2 \<and> cont b3
             then map_option
                    ((#) ((b0 - 240) * 262144 + (b1 - 128) * 4096
                          + (b2 - 128) * 64 + (b3 - 128))) (utf8_dec r)
             else None
         | _ \<Rightarrow> None)
      else None)"

definition decode_utf8 :: "pybytes \<Rightarrow> pystr option" where
  "decode_utf8 bs = utf8_dec (map unat bs)"

text \<open>
  UTF-8 encoding of one code point; \<open>None\<close> is \<open>UnicodeEncodeError\<close> (a lone surrogate).
\<close>

definition enc_cp :: "nat \<Rightarrow> nat list option" where
  "enc_cp c =
     (if c < 128 then Some [c]
      else if c < 2048 then Some [192 + c div 64, 128 + c mod 64]
      else if 55296 \<le> c \<and> c \<le> 57343 then None
      else if c < 65536 then
        Some [224 + c div 4096, 128 + (c div 64) mod 64, 128 + c mod 64]
      else if c < 1114112 then
        Some [240 + c div 262144, 128 + (c div 4096) mod 64,
              128 + (c div 64) mod 64, 128 + c mod 64]
      else None)"

fun utf8_enc :: "pystr \<Rightarrow> nat list option" where
  "utf8_enc [] = Some []"
| "utf8_enc (c # cs) =
     (case enc_cp c of
        None \<Rightarrow> None
      | Some e \<Rightarrow> map_option ((@) e) (utf8_enc cs))"

definition encode_utf8 :: "pystr \<Rightarrow> pybytes option" where
  "encode_utf8 s = map_option (map of_nat) (utf8_enc s)"

subsection \<open>\<open>str.strip()\<close> and the \<open>in\<close> operator\<close>

text \<open>The code points for which \<open>str.isspace\<close> holds.\<close>

definition isspace :: "nat \<Rightarrow> bool" where
  "isspace c =
     ((9 \<le> c \<and> c \<le> 13) \<or> (28 \<le> c \<and> c \<le> 32) \<or> c = 133 \<or> c = 160 \<or> c = 5760
      \<or> (8192 \<le> c \<and> c \<le> 8202) \<or> c = 8232 \<or> c = 8233 \<or> c = 8239 \<or> c = 8287
      \<or> c = 12288)"

definition strip :: "pystr \<Rightarrow> pystr" where
  "strip s = rev (dropWhile isspace (rev (dropWhile isspace s)))"

text \<open>\<open>a in b\<close> on strings: \<open>a\<close> occurs in \<open>b\<close> as a contiguous run of code points.\<close>

fun py_in :: "pystr \<Rightarrow> pystr \<Rightarrow> bool" where
  "py_in a [] = (a = [])"
| "py_in a (c # cs) = (prefix a (c # cs) \<or> py_in a cs)"

section \<open>The service: \<open>AMB82Service\<close>\<close>

definition TOKEN_EXPIRY_DURATION :: real where
  "TOKEN_EXPIRY_DURATION = 3"

definition TOKEN_LENGTH :: nat where
  "TOKEN_LENGTH = 8"

text \<open>
  \<open>_is_token_valid\<close> reads a global named \<open>TOKEN_EXPIRATION\<close>. The module assigns
  \<open>TOKEN_EXPIRY_DURATION\<close> and \<open>TOKEN_LENGTH\<close> and imports no name from elsewhere into its
  namespace, so the lookup finds no binding: \<open>None\<close> here, and \<open>NameError\<close> where the
  name is evaluated.
\<close>

definition TOKEN_EXPIRATION :: "int option" where
  "TOKEN_EXPIRATION = None"

text \<open>
  A log entry is the text of the source's message and the value it interpolates, if any.
  The time stamp that \<open>_log\<close> puts in front is left out.
\<close>

datatype logmsg =
  Msg string
| MsgStr string pystr
| MsgExn string exn

record service =
  active_token :: "pystr option"
  last_hold_time :: real
  claim_enabled :: bool
  current_ssid :: pystr
  status :: pystr
  log_messages :: "logmsg list"

text \<open>
  The connection is the work of the transport library: \<open>self.client\<close> (\<open>None\<close>, or a
  client whose \<open>is_connected\<close> is the given flag) and the six characteristic handles
  found by discovery. No operation modelled here assigns them; each operation reads them
  as they are at the time of the call.
\<close>

record gatt_char =
  uuid :: string
  properties :: "string list"

record link =
  client :: "bool option"
  claim_char :: "gatt_char option"
  hold_char :: "gatt_char option"
  ssid_control_char :: "gatt_char option"
  current_ssid_char :: "gatt_char option"
  wipe_char :: "gatt_char option"
  status_char :: "gatt_char option"

text \<open>
  The transport calls an operation awaits: each returns or raises, \<open>BleakError\<close> or
  another exception.
\<close>

record transport =
  read_gatt_char :: "string \<Rightarrow> pybytes res"
  write_gatt_char :: "string \<Rightarrow> pybytes \<Rightarrow> unit res"

definition log_m :: "logmsg \<Rightarrow> service \<Rightarrow> service" where
  "log_m m s = s\<lparr>log_messages := log_messages s @ [m]\<rparr>"

definition reset_state :: "service \<Rightarrow> service" where
  "reset_state s =
     (log_m (Msg ''Resetting service state.'') s)
       \<lparr>active_token := None, last_hold_time := 0, claim_enabled := True,
        current_ssid := str ''N/A'', status := str ''Idle''\<rparr>"

text \<open>\<open>__init__\<close>: an empty log, then \<open>reset_state\<close>, which assigns every other field.\<close>

definition init :: service where
  "init = reset_state
     \<lparr>active_token = None, last_hold_time = 0, claim_enabled = True,
      current_ssid = [], status = [], log_messages = []\<rparr>"

text \<open>
  The guard that opens every operation,
  \<open>not self.client or not self.client.is_connected or not self._x_char\<close>:
  the characteristic when the guard lets the call through.
\<close>

definition usable :: "link \<Rightarrow> gatt_char option \<Rightarrow> gatt_char option" where
  "usable lk ch = (if client lk = Some True then ch else None)"

text \<open>
  \<open>_is_token_valid(token)\<close> at clock reading \<open>now\<close>, for a token that is a \<open>str\<close>, as
  \<open>claim\<close> returns it; \<open>not token\<close> is then emptiness. Python's \<open>and\<close> evaluates its
  right operand only when the left one is true, so the unbound name is looked up exactly
  when the token is the active one and older than \<open>TOKEN_EXPIRY_DURATION\<close>.
\<close>

definition is_token_valid :: "real \<Rightarrow> pystr \<Rightarrow> service \<Rightarrow> bool res \<times> service" where
  "is_token_valid now token s =
     (if token = [] \<or> Some token \<noteq> active_token s then (Returns False, s)
      else if now - last_hold_time s > TOKEN_EXPIRY_DURATION then
        (case TOKEN_EXPIRATION of
           None \<Rightarrow> (Raises NameError, s)
         | Some x \<Rightarrow>
             if x \<noteq> 0
             then (Returns False,
                   (log_m (Msg ''Token expired.'') s)
                     \<lparr>active_token := None, claim_enabled := True\<rparr>)
             else (Returns True, s))
      else (Returns True, s))"

text \<open>
  A write inside \<open>try\<close>: the argument \<open>x.encode('utf-8')\<close> is evaluated first, then
  \<open>write_gatt_char\<close> is awaited; whichever raises, the \<open>except\<close> clauses see it.
\<close>

definition send :: "transport \<Rightarrow> gatt_char \<Rightarrow> pystr \<Rightarrow> unit res" where
  "send tr ch x =
     (case encode_utf8 x of
        None \<Rightarrow> Raises UnicodeEncodeError
      | Some bs \<Rightarrow> write_gatt_char tr (uuid ch) bs)"

text \<open>
  The \<open>try\<close> block of \<open>claim\<close>, with \<open>now'\<close> the clock reading after the read returned.
\<close>

definition claim_read :: "transport \<Rightarrow> gatt_char \<Rightarrow> real \<Rightarrow> service \<Rightarrow> pystr option res \<times> service" where
  "claim_read tr ch now' s =
     (case read_gatt_char tr (uuid ch) of
        Raises e \<Rightarrow>
          if e = BleakError
          then (Returns None, log_m (MsgExn ''Claim failed: BLE error - '' e) s)
          else (Returns None, log_m (MsgExn ''Claim failed: Unexpected error - '' e) s)
      | Returns token_bytes \<Rightarrow>
          (case decode_utf8 token_bytes of
             None \<Rightarrow>
               (Returns None,
                log_m (MsgExn ''Claim failed: Unexpected error - '' UnicodeDecodeError) s)
           | Some txt \<Rightarrow>
               let token = strip txt in
               if token \<noteq> [] \<and> length token = TOKEN_LENGTH
               then (Returns (Some token),
                     log_m (MsgStr ''Claim successful. Received token: '' token)
                       (s\<lparr>active_token := Some token, last_hold_time := now',
                          claim_enabled := False\<rparr>))
               else (Returns None,
                     log_m (MsgStr ''Claim failed: Invalid token received from device: '' token)
                       s)))"

text \<open>
  \<open>claim()\<close>. \<open>now\<close> is the clock reading of the validity check, made only when a token
  is stored.
\<close>

definition claim :: "link \<Rightarrow> transport \<Rightarrow> real \<Rightarrow> real \<Rightarrow> service \<Rightarrow> pystr option res \<times> service" where
  "claim lk tr now now' s =
     (case usable lk (claim_char lk) of
        None \<Rightarrow>
          (Returns None,
           log_m (Msg ''Claim failed: Not connected or claim characteristic not found.'') s)
      | Some ch \<Rightarrow>
          if \<not> claim_enabled s
          then (Returns None,
                log_m (Msg ''Claim failed: Claiming is currently disabled (likely held by a token).'') s)
          else
            (case active_token s of
               None \<Rightarrow> claim_read tr ch now' (log_m (Msg ''Attempting to claim...'') s)
             | Some t \<Rightarrow>
                 if t = [] then claim_read tr ch now' (log_m (Msg ''Attempting to claim...'') s)
                 else
                   (case is_token_valid now t s of
                      (Raises e, s1) \<Rightarrow> (Raises e, s1)
                    | (Returns True, s1) \<Rightarrow>
                        claim_read tr ch now' (log_m (Msg ''Attempting to claim...'') s1)
                    | (Returns False, s1) \<Rightarrow>
                        claim_read tr ch now'
                          (log_m (Msg ''Attempting to claim...'')
                             (log_m (Msg ''Claiming allowed: Previous token expired.'') s1)))))"

text \<open>
  \<open>hold(token)\<close>. \<open>now\<close> is the clock reading of the validity check, \<open>now'\<close> the one
  after the write returned.
\<close>

definition hold :: "link \<Rightarrow> transport \<Rightarrow> real \<Rightarrow> real \<Rightarrow> pystr \<Rightarrow> service \<Rightarrow> bool res \<times> service" where
  "hold lk tr now now' token s =
     (case usable lk (hold_char lk) of
        None \<Rightarrow>
          (Returns False,
           log_m (Msg ''Hold failed: Not connected or hold characteristic not found.'') s)
      | Some ch \<Rightarrow>
          (case is_token_valid now token s of
             (Raises e, s1) \<Rightarrow> (Raises e, s1)
           | (Returns False, s1) \<Rightarrow>
               (Returns False, log_m (MsgStr ''Hold failed: Invalid or expired token: '' token) s1)
           | (Returns True, s1) \<Rightarrow>
               let s2 = log_m (MsgStr ''Sending hold command with token: '' token) s1 in
               (case send tr ch token of
                  Returns _ \<Rightarrow>
                    (Returns True,
                     log_m (Msg ''Hold command successful.'') (s2\<lparr>last_hold_time := now'\<rparr>))
                | Raises e \<Rightarrow>
                    if e = BleakError
                    then (Returns False, log_m (MsgExn ''Hold failed: BLE error - '' e) s2)
                    else (Returns False, log_m (MsgExn ''Hold failed: Unexpected error - '' e) s2))))"

text \<open>
  The payload of \<open>ssid\<close>: \<open>payload = token\<close>, then \<open>payload += f",{new_ssid}"\<close> under
  \<open>if new_ssid\<close> and, nested in it, \<open>payload += f",{password}"\<close> under \<open>if password\<close>.
  \<open>fstr\<close> is the text an f-string puts for an optional string.
\<close>

fun fstr :: "pystr option \<Rightarrow> pystr" where
  "fstr None = str ''None''"
| "fstr (Some t) = t"

definition ssid_payload :: "pystr \<Rightarrow> pystr option \<Rightarrow> pystr option \<Rightarrow> pystr" where
  "ssid_payload token new_ssid password =
     (if truthy new_ssid
      then (let payload = token @ str '','' @ fstr new_ssid in
            if truthy password then payload @ str '','' @ fstr password else payload)
      else token)"

text \<open>\<open>ssid(token, new_ssid=None, password=None)\<close>.\<close>

definition ssid :: "link \<Rightarrow> transport \<Rightarrow> real \<Rightarrow> real \<Rightarrow> pystr \<Rightarrow> pystr option \<Rightarrow> pystr option \<Rightarrow> service \<Rightarrow> bool res \<times> service" where
  "ssid lk tr now now' token new_ssid password s =
     (case usable lk (ssid_control_char lk) of
        None \<Rightarrow>
          (Returns False,
           log_m (Msg ''SSID command failed: Not connected or SSID control characteristic not found.'') s)
      | Some ch \<Rightarrow>
          (case is_token_valid now token s of
             (Raises e, s1) \<Rightarrow> (Raises e, s1)
           | (Returns False, s1) \<Rightarrow>
               (Returns False,
                log_m (MsgStr ''SSID command failed: Invalid or expired token: '' token) s1)
           | (Returns True, s1) \<Rightarrow>
               let payload = ssid_payload token new_ssid password;
                   s2 = log_m (MsgStr ''Sending SSID command with payload: '' payload) s1 in
               (case send tr ch payload of
                  Returns _ \<Rightarrow>
                    (Returns True,
                     log_m (Msg ''SSID command successful.'') (s2\<lparr>last_hold_time := now'\<rparr>))
                | Raises e \<Rightarrow>
                    if e = BleakError
                    then (Returns False, log_m (MsgExn ''SSID command failed: BLE error - '' e) s2)
                    else (Returns False,
                          log_m (MsgExn ''SSID command failed: Unexpected error - '' e) s2))))"

text \<open>
  \<open>wipe(token)\<close>. After the write the source assigns \<open>last_hold_time\<close> and nothing else;
  its call of \<open>reset_state\<close> is commented out.
\<close>

definition wipe :: "link \<Rightarrow> transport \<Rightarrow> real \<Rightarrow> real \<Rightarrow> pystr \<Rightarrow> service \<Rightarrow> bool res \<times> service" where
  "wipe lk tr now now' token s =
     (case usable lk (wipe_char lk) of
        None \<Rightarrow>
          (Returns False,
           log_m (Msg ''Wipe failed: Not connected or wipe characteristic not found.'') s)
      | Some ch \<Rightarrow>
          (case is_token_valid now token s of
             (Raises e, s1) \<Rightarrow> (Raises e, s1)
           | (Returns False, s1) \<Rightarrow>
               (Returns False,
                log_m (MsgStr ''Wipe command failed: Invalid or expired token: '' token) s1)
           | (Returns True, s1) \<Rightarrow>
               let s2 = log_m (MsgStr ''Sending wipe command with token: '' token) s1 in
               (case send tr ch token of
                  Returns _ \<Rightarrow>
                    (Returns True,
                     log_m (Msg ''Wipe command successful.'') (s2\<lparr>last_hold_time := now'\<rparr>))
                | Raises e \<Rightarrow>
                    if e = BleakError
                    then (Returns False, log_m (MsgExn ''Wipe failed: BLE error - '' e) s2)
                    else (Returns False, log_m (MsgExn ''Wipe failed: Unexpected error - '' e) s2))))"

text \<open>\<open>read_current_ssid()\<close> and \<open>read_status()\<close>.\<close>

definition read_current_ssid :: "link \<Rightarrow> transport \<Rightarrow> service \<Rightarrow> pystr res \<times> service" where
  "read_current_ssid lk tr s =
     (case usable lk (current_ssid_char lk) of
        None \<Rightarrow>
          (Returns (str ''Error''),
           log_m (Msg ''Read SSID failed: Not connected or characteristic not found.'') s)
      | Some ch \<Rightarrow>
          if ''read'' \<notin> set (properties ch)
          then (Returns (str ''Error: Not readable''),
                log_m (Msg ''Read SSID failed: Characteristic does not support read.'') s)
          else
            let s1 = log_m (Msg ''Reading current SSID...'') s in
            (case read_gatt_char tr (uuid ch) of
               Raises e \<Rightarrow>
                 if e = BleakError
                 then (Returns (str ''Error''),
                       log_m (MsgExn ''Read SSID failed: BLE error - '' e) s1)
                 else (Returns (str ''Error''),
                       log_m (MsgExn ''Read SSID failed: Unexpected error - '' e) s1)
             | Returns ssid_bytes \<Rightarrow>
                 (case decode_utf8 ssid_bytes of
                    None \<Rightarrow>
                      (Returns (str ''Error''),
                       log_m (MsgExn ''Read SSID failed: Unexpected error - '' UnicodeDecodeError) s1)
                  | Some txt \<Rightarrow>
                      (Returns (strip txt),
                       log_m (MsgStr ''Current SSID read: '' (strip txt))
                         (s1\<lparr>current_ssid := strip txt\<rparr>)))))"

definition read_status :: "link \<Rightarrow> transport \<Rightarrow> service \<Rightarrow> pystr res \<times> service" where
  "read_status lk tr s =
     (case usable lk (status_char lk) of
        None \<Rightarrow>
          (Returns (str ''Error''),
           log_m (Msg ''Read Status failed: Not connected or characteristic not found.'') s)
      | Some ch \<Rightarrow>
          if ''read'' \<notin> set (properties ch)
          then (Returns (str ''Error: Not readable''),
                log_m (Msg ''Read Status failed: Characteristic does not support read.'') s)
          else
            let s1 = log_m (Msg ''Reading status...'') s in
            (case read_gatt_char tr (uuid ch) of
               Raises e \<Rightarrow>
                 if e = BleakError
                 then (Returns (str ''Error''),
                       log_m (MsgExn ''Read Status failed: BLE error - '' e) s1)
                 else (Returns (str ''Error''),
                       log_m (MsgExn ''Read Status failed: Unexpected error - '' e) s1)
             | Returns status_bytes \<Rightarrow>
                 (case decode_utf8 status_bytes of
                    None \<Rightarrow>
                      (Returns (str ''Error''),
                       log_m (MsgExn ''Read Status failed: Unexpected error - '' UnicodeDecodeError) s1)
                  | Some txt \<Rightarrow>
                      (Returns (strip txt),
                       log_m (MsgStr ''Status read: '' (strip txt))
                         (s1\<lparr>status := strip txt\<rparr>)))))"

text \<open>
  The notification handlers. They run as callbacks of the transport, outside any
  \<open>try\<close>: a payload that is not UTF-8 raises out of the handler before the first
  assignment. The unused \<open>sender\<close> argument is left out.
\<close>

definition default_status_handler :: "pybytes \<Rightarrow> service \<Rightarrow> unit res \<times> service" where
  "default_status_handler data s =
     (case decode_utf8 data of
        None \<Rightarrow> (Raises UnicodeDecodeError, s)
      | Some txt \<Rightarrow>
          let s1 = s\<lparr>status := strip txt\<rparr>;
              s2 = log_m (MsgStr ''Status Notification Received: '' (status s1)) s1 in
          if py_in (str ''Expired'') (status s2) \<or> py_in (str ''Reset'') (status s2)
          then (Returns (), s2\<lparr>active_token := None, claim_enabled := True\<rparr>)
          else (Returns (), s2))"

definition default_ssid_handler :: "pybytes \<Rightarrow> service \<Rightarrow> unit res \<times> service" where
  "default_ssid_handler data s =
     (case decode_utf8 data of
        None \<Rightarrow> (Raises UnicodeDecodeError, s)
      | Some txt \<Rightarrow>
          let s1 = s\<lparr>current_ssid := strip txt\<rparr> in
          (Returns (), log_m (MsgStr ''Current SSID Notification Received: '' (current_ssid s1)) s1))"

text \<open>\<open>get_state()\<close>: the dictionary it returns, and the state it leaves.\<close>

record state_view =
  view_active_token :: "pystr option"
  view_claim_enabled :: bool
  view_current_ssid :: pystr
  view_last_hold_time :: real
  view_token_expired :: bool
  view_status :: pystr
  view_is_connected :: bool

definition get_state :: "link \<Rightarrow> real \<Rightarrow> service \<Rightarrow> state_view \<times> service" where
  "get_state lk now s =
     (let token_expired =
            (truthy (active_token s) \<and> now - last_hold_time s > TOKEN_EXPIRY_DURATION) in
      (\<lparr>view_active_token = (if \<not> token_expired then active_token s else None),
        view_claim_enabled = (claim_enabled s \<or> token_expired),
        view_current_ssid = current_ssid s,
        view_last_hold_time = last_hold_time s,
        view_token_expired = token_expired,
        view_status = status s,
        view_is_connected = (client lk = Some True)\<rparr>, s))"

text \<open>\<open>reset()\<close>.\<close>

definition reset :: "service \<Rightarrow> unit res \<times> service" where
  "reset s = (Returns (), reset_state s)"

subsection \<open>The states the service can be in\<close>

text \<open>
  The state after \<open>__init__\<close>, and every state an operation or a notification leaves,
  whatever the connection, the transport's answers and the clock readings are, and
  whether the call returned or raised.
\<close>

inductive reachable :: "service \<Rightarrow> bool" where
  r_init: "reachable init"
| r_claim: "reachable s \<Longrightarrow> reachable (snd (claim lk tr now now' s))"
| r_hold: "reachable s \<Longrightarrow> reachable (snd (hold lk tr now now' token s))"
| r_ssid: "reachable s \<Longrightarrow> reachable (snd (ssid lk tr now now' token new_ssid password s))"
| r_wipe: "reachable s \<Longrightarrow> reachable (snd (wipe lk tr now now' token s))"
| r_read_current_ssid: "reachable s \<Longrightarrow> reachable (snd (read_current_ssid lk tr s))"
| r_read_status: "reachable s \<Longrightarrow> reachable (snd (read_status lk tr s))"
| r_status_notification: "reachable s \<Longrightarrow> reachable (snd (default_status_handler data s))"
| r_ssid_notification: "reachable s \<Longrightarrow> reachable (snd (default_ssid_handler data s))"
| r_get_state: "reachable s \<Longrightarrow> reachable (snd (get_state lk now s))"
| r_reset: "reachable s \<Longrightarrow> reachable (snd (reset s))"

subsection \<open>A connected session used in the examples\<close>

definition CLAIM_CHAR_UUID :: string where
  "CLAIM_CHAR_UUID = ''A4955678-C5B1-4B44-B512-1370F02D74D1''"

definition HOLD_CHAR_UUID :: string where
  "HOLD_CHAR_UUID = ''A4955678-C5B1-4B44-B512-1370F02D74D2''"

definition SSID_CONTROL_CHAR_UUID :: string where
  "SSID_CONTROL_CHAR_UUID = ''A4955678-C5B1-4B44-B512-1370F02D74D3''"

definition CURRENT_SSID_CHAR_UUID :: string where
  "CURRENT_SSID_CHAR_UUID = ''A4955678-C5B1-4B44-B512-1370F02D74D4''"

definition WIPE_CHAR_UUID :: string where
  "WIPE_CHAR_UUID = ''A4955678-C5B1-4B44-B512-1370F02D74D5''"

definition STATUS_CHAR_UUID :: string where
  "STATUS_CHAR_UUID = ''A4955678-C5B1-4B44-B512-1370F02D74D6''"

definition connected :: link where
  "connected =
     \<lparr>client = Some True,
      claim_char = Some \<lparr>uuid = CLAIM_CHAR_UUID, properties = [''read'']\<rparr>,
      hold_char = Some \<lparr>uuid = HOLD_CHAR_UUID, properties = [''write'']\<rparr>,
      ssid_control_char = Some \<lparr>uuid = SSID_CONTROL_CHAR_UUID, properties = [''write'']\<rparr>,
      current_ssid_char = Some \<lparr>uuid = CURRENT_SSID_CHAR_UUID, properties = [''read'', ''notify'']\<rparr>,
      wipe_char = Some \<lparr>uuid = WIPE_CHAR_UUID, properties = [''write'']\<rparr>,
      status_char = Some \<lparr>uuid = STATUS_CHAR_UUID, properties = [''read'', ''notify'']\<rparr>\<rparr>"

text \<open>
  A peripheral that answers every read with the eight octets of \<open>tok\<close> and acknowledges
  every write, and one whose every call raises \<open>BleakError\<close>.
\<close>

definition answering :: "string \<Rightarrow> transport" where
  "answering tok =
     \<lparr>read_gatt_char = (\<lambda>u. Returns (ascii tok)),
      write_gatt_char = (\<lambda>u bs. Returns ())\<rparr>"

definition failing :: transport where
  "failing =
     \<lparr>read_gatt_char = (\<lambda>u. Raises BleakError),
      write_gatt_char = (\<lambda>u bs. Raises BleakError)\<rparr>"

text \<open>A peripheral that acknowledges a write of exactly the given octets and no other.\<close>

definition expecting :: "pybytes \<Rightarrow> transport" where
  "expecting bs =
     \<lparr>read_gatt_char = (\<lambda>u. Raises BleakError),
      write_gatt_char = (\<lambda>u x. if x = bs then Returns () else Raises BleakError)\<rparr>"

text \<open>The state after a claim at clock reading 100 that the peripheral answered with \<open>AbC123Xy\<close>.\<close>

definition held :: service where
  "held = snd (claim connected (answering ''AbC123Xy'') 100 100 init)"

subsection \<open>The invariant of the lease fields\<close>

text \<open>
  Claiming is enabled exactly when no token is stored, and a stored token has
  \<open>TOKEN_LENGTH\<close> code points.
\<close>

definition lease_inv :: "service \<Rightarrow> bool" where
  "lease_inv s =
     ((claim_enabled s \<longleftrightarrow> active_token s = None)
      \<and> (\<forall>t. active_token s = Some t \<longrightarrow> length t = TOKEN_LENGTH))"

section \<open>Properties\<close>

subsection \<open>The validity check\<close>

lemma is_token_valid_fresh:
  "token \<noteq> [] \<Longrightarrow> active_token s = Some token
   \<Longrightarrow> now - last_hold_time s \<le> TOKEN_EXPIRY_DURATION
   \<Longrightarrow> is_token_valid now token s = (Returns True, s)"
  by (simp add: is_token_valid_def)

lemma is_token_valid_stale:
  "token \<noteq> [] \<Longrightarrow> active_token s = Some token
   \<Longrightarrow> now - last_hold_time s > TOKEN_EXPIRY_DURATION
   \<Longrightarrow> is_token_valid now token s = (Raises NameError, s)"
  by (simp add: is_token_valid_def TOKEN_EXPIRATION_def)

lemma is_token_valid_other:
  "token = [] \<or> active_token s \<noteq> Some token
   \<Longrightarrow> is_token_valid now token s = (Returns False, s)"
  by (auto simp add: is_token_valid_def)

lemma is_token_valid_True:
  "fst (is_token_valid now token s) = Returns True \<longleftrightarrow>
     token \<noteq> [] \<and> active_token s = Some token
     \<and> now - last_hold_time s \<le> TOKEN_EXPIRY_DURATION"
  by (auto simp add: is_token_valid_def TOKEN_EXPIRATION_def)

subsection \<open>Substrings\<close>

lemma py_in_sublist: "py_in a b \<longleftrightarrow> sublist a b"
  by (induction b) (auto simp: sublist_Cons_right)

lemma py_in_iff: "py_in a b \<longleftrightarrow> (\<exists>p q. b = p @ a @ q)"
  by (simp add: py_in_sublist sublist_def)

subsection \<open>The example session\<close>

lemma held_eq:
  "held =
     \<lparr>active_token = Some (str ''AbC123Xy''), last_hold_time = 100, claim_enabled = False,
      current_ssid = str ''N/A'', status = str ''Idle'',
      log_messages =
        [Msg ''Resetting service state.'', Msg ''Attempting to claim...'',
         MsgStr ''Claim successful. Received token: '' (str ''AbC123Xy'')]\<rparr>"
  by (simp add: held_def claim_def claim_read_def init_def reset_state_def log_m_def usable_def
       connected_def answering_def decode_utf8_def ascii_def str_def strip_def isspace_def
       TOKEN_LENGTH_def Let_def)

lemma reachable_held: "reachable held"
  unfolding held_def by (intro r_claim r_init)

lemma send_failing: "send failing ch (str ''AbC123Xy'') = Raises BleakError"
  by (simp add: send_def failing_def encode_utf8_def str_def enc_cp_def)

lemma send_answering: "send (answering tok) ch (str ''AbC123Xy'') = Returns ()"
  by (simp add: send_def answering_def encode_utf8_def str_def enc_cp_def)

lemma held_stale: "104 - last_hold_time held > TOKEN_EXPIRY_DURATION"
  by (simp add: held_eq TOKEN_EXPIRY_DURATION_def)

lemma held_fresh: "101 - last_hold_time held \<le> TOKEN_EXPIRY_DURATION"
  by (simp add: held_eq TOKEN_EXPIRY_DURATION_def)

lemma held_token: "active_token held = Some (str ''AbC123Xy'') \<and> str ''AbC123Xy'' \<noteq> []"
  by (simp add: held_eq) (simp add: str_def)

lemma connected_usable:
  "usable connected (claim_char connected)
     = Some \<lparr>uuid = CLAIM_CHAR_UUID, properties = [''read'']\<rparr>"
  "usable connected (hold_char connected)
     = Some \<lparr>uuid = HOLD_CHAR_UUID, properties = [''write'']\<rparr>"
  "usable connected (ssid_control_char connected)
     = Some \<lparr>uuid = SSID_CONTROL_CHAR_UUID, properties = [''write'']\<rparr>"
  "usable connected (wipe_char connected)
     = Some \<lparr>uuid = WIPE_CHAR_UUID, properties = [''write'']\<rparr>"
  by (simp_all add: usable_def connected_def)

subsection \<open>Every operation keeps the invariant\<close>

lemma lease_inv_log [simp]: "lease_inv (log_m m s) = lease_inv s"
  by (simp add: lease_inv_def log_m_def)

lemma lease_inv_init: "lease_inv init"
  by (simp add: lease_inv_def init_def reset_state_def log_m_def)

lemma lease_inv_claim_read: "lease_inv s \<Longrightarrow> lease_inv (snd (claim_read tr ch now' s))"
  by (simp add: claim_read_def Let_def split: res.splits option.splits)
     (simp add: lease_inv_def log_m_def)

lemma lease_inv_claim: "lease_inv s \<Longrightarrow> lease_inv (snd (claim lk tr now now' s))"
  by (simp add: claim_def lease_inv_claim_read is_token_valid_def TOKEN_EXPIRATION_def
       split: option.splits)

lemma lease_inv_hold: "lease_inv s \<Longrightarrow> lease_inv (snd (hold lk tr now now' token s))"
  by (simp add: hold_def Let_def is_token_valid_def TOKEN_EXPIRATION_def
       split: option.splits res.splits)
     (simp add: lease_inv_def log_m_def)

lemma lease_inv_ssid:
  "lease_inv s \<Longrightarrow> lease_inv (snd (ssid lk tr now now' token new_ssid password s))"
  by (simp add: ssid_def Let_def is_token_valid_def TOKEN_EXPIRATION_def
       split: option.splits res.splits)
     (simp add: lease_inv_def log_m_def)

lemma lease_inv_wipe: "lease_inv s \<Longrightarrow> lease_inv (snd (wipe lk tr now now' token s))"
  by (simp add: wipe_def Let_def is_token_valid_def TOKEN_EXPIRATION_def
       split: option.splits res.splits)
     (simp add: lease_inv_def log_m_def)

lemma lease_inv_read_current_ssid:
  "lease_inv s \<Longrightarrow> lease_inv (snd (read_current_ssid lk tr s))"
  by (simp add: read_current_ssid_def Let_def split: option.splits res.splits)
     (simp add: lease_inv_def log_m_def)

lemma lease_inv_read_status: "lease_inv s \<Longrightarrow> lease_inv (snd (read_status lk tr s))"
  by (simp add: read_status_def Let_def split: option.splits res.splits)
     (simp add: lease_inv_def log_m_def)

lemma lease_inv_status_handler:
  "lease_inv s \<Longrightarrow> lease_inv (snd (default_status_handler data s))"
  by (simp add: default_status_handler_def Let_def split: option.splits)
     (simp add: lease_inv_def log_m_def)

lemma lease_inv_ssid_handler:
  "lease_inv s \<Longrightarrow> lease_inv (snd (default_ssid_handler data s))"
  by (simp add: default_ssid_handler_def Let_def split: option.splits)
     (simp add: lease_inv_def log_m_def)

lemma lease_inv_reset: "lease_inv (snd (reset s))"
  by (simp add: reset_def reset_state_def lease_inv_def log_m_def)

lemma reachable_lease_inv: "reachable s \<Longrightarrow> lease_inv s"
proof (induction rule: reachable.induct)
  case r_init
  show ?case by (rule lease_inv_init)
next
  case (r_get_state s lk now)
  then show ?case by (simp add: get_state_def Let_def)
qed (simp_all add: lease_inv_claim lease_inv_hold lease_inv_ssid lease_inv_wipe
       lease_inv_read_current_ssid lease_inv_read_status lease_inv_status_handler
       lease_inv_ssid_handler lease_inv_reset)

subsection \<open>Mutual exclusion\<close>

text \<open>
  C1. In every state reachable from \<open>__init__\<close> by claim, hold, ssid, wipe, the reads,
  the notification handlers, get_state and reset, with any connection, any transport
  answers and any clock readings: at every clock reading at most one token passes the
  validity check; whenever a stored token is not older than \<open>TOKEN_EXPIRY_DURATION\<close>,
  \<open>claim_enabled\<close> is false; and whenever \<open>get_state\<close> reports a token, it reports
  claiming as disabled.
\<close>

theorem reachable_single_live_token:
  assumes "reachable s"
  shows "(\<forall>t1 t2. fst (is_token_valid now t1 s) = Returns True
                  \<and> fst (is_token_valid now t2 s) = Returns True \<longrightarrow> t1 = t2)
       \<and> (\<forall>t. active_token s = Some t \<and> now - last_hold_time s \<le> TOKEN_EXPIRY_DURATION
              \<longrightarrow> \<not> claim_enabled s)
       \<and> (view_active_token (fst (get_state lk now s)) \<noteq> None
              \<longrightarrow> \<not> claim_enabled s \<and> \<not> view_claim_enabled (fst (get_state lk now s)))"
proof (intro conjI allI impI)
  fix t1 t2
  assume "fst (is_token_valid now t1 s) = Returns True
            \<and> fst (is_token_valid now t2 s) = Returns True"
  then show "t1 = t2"
    by (auto simp add: is_token_valid_True)
next
  fix t
  assume "active_token s = Some t \<and> now - last_hold_time s \<le> TOKEN_EXPIRY_DURATION"
  with reachable_lease_inv [OF assms] show "\<not> claim_enabled s"
    by (simp add: lease_inv_def)
next
  assume v: "view_active_token (fst (get_state lk now s)) \<noteq> None"
  then have tok: "active_token s \<noteq> None"
    by (simp add: get_state_def Let_def split: if_splits)
  with reachable_lease_inv [OF assms] show "\<not> claim_enabled s"
    by (simp add: lease_inv_def)
  with v show "\<not> view_claim_enabled (fst (get_state lk now s))"
    by (simp add: get_state_def Let_def split: if_splits)
qed

theorem reachable_single_live_token_witness:
  "reachable held
   \<and> fst (is_token_valid 101 (str ''AbC123Xy'') held) = Returns True
   \<and> active_token held = Some (str ''AbC123Xy'')
   \<and> 101 - last_hold_time held \<le> TOKEN_EXPIRY_DURATION
   \<and> view_active_token (fst (get_state connected 101 held)) \<noteq> None
   \<and> \<not> claim_enabled held
   \<and> \<not> view_claim_enabled (fst (get_state connected 101 held))"
proof -
  have a: "active_token held = Some (str ''AbC123Xy'')
             \<and> 101 - last_hold_time held \<le> TOKEN_EXPIRY_DURATION"
    by (simp add: held_eq TOKEN_EXPIRY_DURATION_def)
  have b: "fst (is_token_valid 101 (str ''AbC123Xy'') held) = Returns True"
    using a by (simp add: is_token_valid_True str_def)
  have c: "view_active_token (fst (get_state connected 101 held)) \<noteq> None"
    using a by (simp add: get_state_def Let_def)
  from reachable_single_live_token [OF reachable_held, of 101 connected] a c
  have "\<not> claim_enabled held \<and> \<not> view_claim_enabled (fst (get_state connected 101 held))"
    by blast
  with reachable_held a b c show ?thesis by simp
qed

subsection \<open>Renewal\<close>

text \<open>
  C6. When \<open>hold\<close> is let through by the connection guard with the stored, non-empty
  token not older than \<open>TOKEN_EXPIRY_DURATION\<close>, and the write raises (the transport's
  \<open>write_gatt_char\<close>, or the encoding of its argument), \<open>hold\<close> returns \<open>False\<close> and
  \<open>last_hold_time\<close> is what it was. And for every call of \<open>hold\<close> whatsoever:
  \<open>last_hold_time\<close> differs afterwards only if the write returned and \<open>hold\<close> returned
  \<open>True\<close>.
\<close>

theorem hold_renews_only_on_confirmed_write:
  "(usable lk (hold_char lk) = Some ch \<and> token \<noteq> [] \<and> active_token s = Some token
      \<and> now - last_hold_time s \<le> TOKEN_EXPIRY_DURATION \<and> send tr ch token = Raises e
    \<longrightarrow> fst (hold lk tr now now' token s) = Returns False
        \<and> last_hold_time (snd (hold lk tr now now' token s)) = last_hold_time s)
   \<and> (last_hold_time (snd (hold lk tr now now' token s)) \<noteq> last_hold_time s
    \<longrightarrow> fst (hold lk tr now now' token s) = Returns True
        \<and> (\<exists>ch. usable lk (hold_char lk) = Some ch \<and> send tr ch token = Returns ()))"
proof (intro conjI impI)
  assume a: "usable lk (hold_char lk) = Some ch \<and> token \<noteq> [] \<and> active_token s = Some token
      \<and> now - last_hold_time s \<le> TOKEN_EXPIRY_DURATION \<and> send tr ch token = Raises e"
  then have v: "is_token_valid now token s = (Returns True, s)"
    by (simp add: is_token_valid_fresh)
  from a v show "fst (hold lk tr now now' token s) = Returns False"
    by (simp add: hold_def log_m_def Let_def)
  from a v show "last_hold_time (snd (hold lk tr now now' token s)) = last_hold_time s"
    by (simp add: hold_def log_m_def Let_def)
next
  assume c: "last_hold_time (snd (hold lk tr now now' token s)) \<noteq> last_hold_time s"
  then show "fst (hold lk tr now now' token s) = Returns True"
    by (auto simp add: hold_def log_m_def Let_def is_token_valid_def TOKEN_EXPIRATION_def
          split: option.splits res.splits bool.splits if_splits)
  from c show "\<exists>ch. usable lk (hold_char lk) = Some ch \<and> send tr ch token = Returns ()"
    by (auto simp add: hold_def log_m_def Let_def is_token_valid_def TOKEN_EXPIRATION_def
          split: option.splits res.splits bool.splits if_splits)
qed

theorem hold_renews_only_on_confirmed_write_witness:
  "usable connected (hold_char connected)
     = Some \<lparr>uuid = HOLD_CHAR_UUID, properties = [''write'']\<rparr>
   \<and> str ''AbC123Xy'' \<noteq> [] \<and> active_token held = Some (str ''AbC123Xy'')
   \<and> 102 - last_hold_time held \<le> TOKEN_EXPIRY_DURATION
   \<and> send failing \<lparr>uuid = HOLD_CHAR_UUID, properties = [''write'']\<rparr> (str ''AbC123Xy'')
       = Raises BleakError
   \<and> fst (hold connected failing 102 103 (str ''AbC123Xy'') held) = Returns False
   \<and> last_hold_time (snd (hold connected failing 102 103 (str ''AbC123Xy'') held)) = 100
   \<and> last_hold_time held = 100
   \<and> last_hold_time
        (snd (hold connected (answering ''AbC123Xy'') 102 103 (str ''AbC123Xy'') held)) = 103
   \<and> fst (hold connected (answering ''AbC123Xy'') 102 103 (str ''AbC123Xy'') held)
       = Returns True"
proof -
  let ?ch = "\<lparr>uuid = HOLD_CHAR_UUID, properties = [''write'']\<rparr>"
  let ?t = "str ''AbC123Xy''"
  have u: "usable connected (hold_char connected) = Some ?ch"
    by (simp add: usable_def connected_def)
  have h: "usable connected (hold_char connected) = Some ?ch \<and> ?t \<noteq> []
      \<and> active_token held = Some ?t \<and> 102 - last_hold_time held \<le> TOKEN_EXPIRY_DURATION
      \<and> send failing ?ch ?t = Raises BleakError"
    by (simp add: u send_failing held_eq TOKEN_EXPIRY_DURATION_def) (simp add: str_def)
  have l: "last_hold_time held = 100" by (simp add: held_eq)
  have r: "last_hold_time (snd (hold connected (answering ''AbC123Xy'') 102 103 ?t held)) = 103"
    using h by (simp add: hold_def u is_token_valid_fresh send_answering Let_def log_m_def)
  from hold_renews_only_on_confirmed_write
         [of connected ?ch ?t held 102 failing BleakError 103] h l
  have f: "fst (hold connected failing 102 103 ?t held) = Returns False
     \<and> last_hold_time (snd (hold connected failing 102 103 ?t held)) = 100"
    by simp
  from hold_renews_only_on_confirmed_write
         [of connected ?ch ?t held 102 "answering ''AbC123Xy''" BleakError 103] r l
  have g: "fst (hold connected (answering ''AbC123Xy'') 102 103 ?t held) = Returns True"
    by simp
  from h l r f g show ?thesis by simp
qed

subsection \<open>Which calls return\<close>

text \<open>
  \<open>claim\<close> and the reads return in every state that keeps the invariant; \<open>hold\<close>,
  \<open>ssid\<close> and \<open>wipe\<close> return unless they are given the stored token after it has
  expired.
\<close>

lemma claim_read_returns: "\<exists>v. fst (claim_read tr ch now' s) = Returns v"
  by (simp add: claim_read_def Let_def split: res.splits option.splits)

lemma claim_returns:
  "lease_inv s \<Longrightarrow> \<exists>v. fst (claim lk tr now now' s) = Returns v"
  by (auto simp add: claim_def claim_read_returns lease_inv_def split: option.splits)

lemma hold_returns_unless_stale:
  "\<not> (token \<noteq> [] \<and> active_token s = Some token
       \<and> now - last_hold_time s > TOKEN_EXPIRY_DURATION)
   \<Longrightarrow> \<exists>v. fst (hold lk tr now now' token s) = Returns v"
  by (auto simp add: hold_def is_token_valid_def Let_def split: option.splits res.splits)

lemma ssid_returns_unless_stale:
  "\<not> (token \<noteq> [] \<and> active_token s = Some token
       \<and> now - last_hold_time s > TOKEN_EXPIRY_DURATION)
   \<Longrightarrow> \<exists>v. fst (ssid lk tr now now' token new_ssid password s) = Returns v"
  by (auto simp add: ssid_def is_token_valid_def Let_def split: option.splits res.splits)

lemma wipe_returns_unless_stale:
  "\<not> (token \<noteq> [] \<and> active_token s = Some token
       \<and> now - last_hold_time s > TOKEN_EXPIRY_DURATION)
   \<Longrightarrow> \<exists>v. fst (wipe lk tr now now' token s) = Returns v"
  by (auto simp add: wipe_def is_token_valid_def Let_def split: option.splits res.splits)

lemma read_status_returns: "\<exists>v. fst (read_status lk tr s) = Returns v"
  by (simp add: read_status_def Let_def split: option.splits res.splits)

lemma read_current_ssid_returns: "\<exists>v. fst (read_current_ssid lk tr s) = Returns v"
  by (simp add: read_current_ssid_def Let_def split: option.splits res.splits)

subsection \<open>An expired token\<close>

text \<open>
  C3. The session holds the token \<open>AbC123Xy\<close> since clock reading 100 and is connected.
  At clock reading 104 the token is older than \<open>TOKEN_EXPIRY_DURATION\<close>, and
  \<open>hold("AbC123Xy")\<close> raises \<open>NameError\<close> out of the validity check: it does not return
  \<open>False\<close>, and the state is what it was, the token stored and claiming disabled.
\<close>

theorem hold_expired_raises_NameError:
  "active_token held = Some (str ''AbC123Xy'')
   \<and> 104 - last_hold_time held > TOKEN_EXPIRY_DURATION
   \<and> hold connected (answering ''AbC123Xy'') 104 104 (str ''AbC123Xy'') held
       = (Raises NameError, held)
   \<and> \<not> claim_enabled held"
  using held_token held_stale
  by (simp add: hold_def connected_usable is_token_valid_stale) (simp add: held_eq)

text \<open>
  C4. In that same state, which \<open>__init__\<close> and one \<open>claim\<close> reach, \<open>hold\<close>, \<open>ssid\<close> and
  \<open>wipe\<close> called with the stored token at clock reading 104 each end by raising
  \<open>NameError\<close> instead of returning a value.
\<close>

theorem operations_raise_on_expired_token:
  "fst (hold connected (answering ''AbC123Xy'') 104 105 (str ''AbC123Xy'') held)
       = Raises NameError
   \<and> fst (ssid connected (answering ''AbC123Xy'') 104 105 (str ''AbC123Xy'')
            (Some (str ''net1'')) (Some (str ''pass1'')) held)
       = Raises NameError
   \<and> fst (wipe connected (answering ''AbC123Xy'') 104 105 (str ''AbC123Xy'') held)
       = Raises NameError"
  using held_token held_stale
  by (simp add: hold_def ssid_def wipe_def connected_usable is_token_valid_stale)

subsection \<open>Claiming\<close>

lemma claim_refused_when_disabled:
  "\<not> claim_enabled s \<Longrightarrow>
     fst (claim lk tr now now' s) = Returns None
     \<and> active_token (snd (claim lk tr now now' s)) = active_token s
     \<and> claim_enabled (snd (claim lk tr now now' s)) = claim_enabled s
     \<and> last_hold_time (snd (claim lk tr now now' s)) = last_hold_time s"
  by (simp add: claim_def log_m_def split: option.splits)

text \<open>
  With claiming enabled, no token stored, and a read that returns octets decoding to
  \<open>TOKEN_LENGTH\<close> code points between whitespace, \<open>claim\<close> stores and returns the
  token.
\<close>

lemma claim_enabled_stores_token:
  assumes "usable lk (claim_char lk) = Some ch" and "claim_enabled s" and "active_token s = None"
    and "read_gatt_char tr (uuid ch) = Returns bs" and "decode_utf8 bs = Some tx"
    and "length (strip tx) = TOKEN_LENGTH"
  shows "fst (claim lk tr now now' s) = Returns (Some (strip tx))
     \<and> active_token (snd (claim lk tr now now' s)) = Some (strip tx)
     \<and> last_hold_time (snd (claim lk tr now now' s)) = now'
     \<and> \<not> claim_enabled (snd (claim lk tr now now' s))"
proof -
  have "strip tx \<noteq> []" using assms(6) by (auto simp add: TOKEN_LENGTH_def)
  with assms show ?thesis
    by (simp add: claim_def claim_read_def Let_def log_m_def)
qed

text \<open>
  C5. In the state holding \<open>AbC123Xy\<close> since clock reading 100, at clock reading 104 the
  token no longer passes the validity check and \<open>get_state\<close> reports claiming as enabled,
  yet \<open>claim()\<close> on a connected session whose peripheral would answer with a fresh
  token returns \<open>None\<close> at the \<open>claim_enabled\<close> guard, with the message that claiming is
  disabled and without any other change of state.
\<close>

theorem claim_refused_after_expiry:
  "active_token held = Some (str ''AbC123Xy'')
   \<and> 104 - last_hold_time held > TOKEN_EXPIRY_DURATION
   \<and> fst (is_token_valid 104 (str ''AbC123Xy'') held) \<noteq> Returns True
   \<and> view_claim_enabled (fst (get_state connected 104 held))
   \<and> claim connected (answering ''Zz9Yy8Xx'') 104 104 held
       = (Returns None,
          log_m (Msg ''Claim failed: Claiming is currently disabled (likely held by a token).'')
            held)"
  using held_token held_stale
  by (simp add: claim_def connected_usable is_token_valid_stale get_state_def Let_def)
     (simp add: held_eq)

subsection \<open>Wipe\<close>

text \<open>
  C2, as the code has it. In a reachable state, when \<open>wipe\<close> is let through by the
  connection guard with the stored, non-empty token not older than
  \<open>TOKEN_EXPIRY_DURATION\<close> and the write returns, \<open>wipe\<close> returns \<open>True\<close> and only renews:
  \<open>last_hold_time\<close> becomes the clock reading after the write, the token stays stored and
  claiming stays disabled, so that a \<open>claim()\<close> made next, on any connection and
  transport, returns \<open>None\<close> and leaves the token in place.
\<close>

theorem wipe_only_renews:
  assumes "reachable s"
    and "usable lk (wipe_char lk) = Some ch"
    and "token \<noteq> []" and "active_token s = Some token"
    and "now - last_hold_time s \<le> TOKEN_EXPIRY_DURATION"
    and "send tr ch token = Returns ()"
  shows "fst (wipe lk tr now now' token s) = Returns True
     \<and> active_token (snd (wipe lk tr now now' token s)) = Some token
     \<and> \<not> claim_enabled (snd (wipe lk tr now now' token s))
     \<and> last_hold_time (snd (wipe lk tr now now' token s)) = now'
     \<and> fst (claim lk2 tr2 now2 now2' (snd (wipe lk tr now now' token s))) = Returns None
     \<and> active_token (snd (claim lk2 tr2 now2 now2' (snd (wipe lk tr now now' token s))))
         = Some token"
proof -
  let ?w = "wipe lk tr now now' token s"
  have v: "is_token_valid now token s = (Returns True, s)"
    using assms by (simp add: is_token_valid_fresh)
  have d: "\<not> claim_enabled s"
    using reachable_lease_inv [OF assms(1)] assms(4) by (simp add: lease_inv_def)
  have w: "?w = (Returns True,
      (log_m (MsgStr ''Sending wipe command with token: '' token) s)
        \<lparr>last_hold_time := now', log_messages :=
            log_messages (log_m (MsgStr ''Sending wipe command with token: '' token) s)
              @ [Msg ''Wipe command successful.'']\<rparr>)"
    using assms v by (simp add: wipe_def Let_def log_m_def)
  have f: "fst ?w = Returns True \<and> active_token (snd ?w) = Some token
      \<and> \<not> claim_enabled (snd ?w) \<and> last_hold_time (snd ?w) = now'"
    using assms(4) d by (simp add: w log_m_def)
  with claim_refused_when_disabled [of "snd ?w" lk2 tr2 now2 now2']
  show ?thesis by simp
qed

theorem wipe_only_renews_witness:
  "reachable held
   \<and> usable connected (wipe_char connected)
       = Some \<lparr>uuid = WIPE_CHAR_UUID, properties = [''write'']\<rparr>
   \<and> str ''AbC123Xy'' \<noteq> [] \<and> active_token held = Some (str ''AbC123Xy'')
   \<and> 101 - last_hold_time held \<le> TOKEN_EXPIRY_DURATION
   \<and> send (answering ''Zz9Yy8Xx'') \<lparr>uuid = WIPE_CHAR_UUID, properties = [''write'']\<rparr>
        (str ''AbC123Xy'') = Returns ()
   \<and> last_hold_time
        (snd (wipe connected (answering ''Zz9Yy8Xx'') 101 102 (str ''AbC123Xy'') held)) = 102
   \<and> fst (claim connected (answering ''Zz9Yy8Xx'') 102 102
            (snd (wipe connected (answering ''Zz9Yy8Xx'') 101 102 (str ''AbC123Xy'') held)))
       = Returns None"
  using wipe_only_renews [OF reachable_held connected_usable(4) conjunct2 [OF held_token]
      conjunct1 [OF held_token] held_fresh send_answering,
      of "''Zz9Yy8Xx''" 102 connected "answering ''Zz9Yy8Xx''" 102 102]
    reachable_held connected_usable(4) held_token held_fresh send_answering
  by simp

text \<open>
  C2 as the specification words it fails on the session holding \<open>AbC123Xy\<close>: the
  token is valid at clock reading 101 and the write returns, and after \<open>wipe\<close> the token is
  still stored, claiming is still disabled and the \<open>claim()\<close> made next returns \<open>None\<close>.
\<close>

theorem wipe_keeps_lease_counterexample:
  "fst (is_token_valid 101 (str ''AbC123Xy'') held) = Returns True
   \<and> send (answering ''Zz9Yy8Xx'') \<lparr>uuid = WIPE_CHAR_UUID, properties = [''write'']\<rparr>
        (str ''AbC123Xy'') = Returns ()
   \<and> fst (wipe connected (answering ''Zz9Yy8Xx'') 101 102 (str ''AbC123Xy'') held)
       = Returns True
   \<and> active_token
        (snd (wipe connected (answering ''Zz9Yy8Xx'') 101 102 (str ''AbC123Xy'') held))
       = Some (str ''AbC123Xy'')
   \<and> \<not> claim_enabled
          (snd (wipe connected (answering ''Zz9Yy8Xx'') 101 102 (str ''AbC123Xy'') held))
   \<and> fst (claim connected (answering ''Zz9Yy8Xx'') 102 102
            (snd (wipe connected (answering ''Zz9Yy8Xx'') 101 102 (str ''AbC123Xy'') held)))
       = Returns None"
proof -
  let ?w = "wipe connected (answering ''Zz9Yy8Xx'') 101 102 (str ''AbC123Xy'') held"
  have v: "is_token_valid 101 (str ''AbC123Xy'') held = (Returns True, held)"
    using held_token held_fresh by (simp add: is_token_valid_fresh)
  have w: "fst ?w = Returns True \<and> active_token (snd ?w) = Some (str ''AbC123Xy'')
      \<and> \<not> claim_enabled (snd ?w)"
    by (simp add: wipe_def connected_usable v send_answering Let_def log_m_def)
       (simp add: held_eq)
  then have "fst (claim connected (answering ''Zz9Yy8Xx'') 102 102 (snd ?w)) = Returns None"
    by (simp add: claim_refused_when_disabled)
  with v w show ?thesis by (simp add: send_answering)
qed

subsection \<open>The network command\<close>

text \<open>
  C7. When \<open>ssid\<close> is let through by the connection guard with the stored, non-empty
  token not older than \<open>TOKEN_EXPIRY_DURATION\<close>, the payload it builds is the token
  alone when no ssid is given; the token, a comma and the ssid when an ssid is given and
  no password; the token, a comma, the ssid, a comma and the password when both are
  given. An argument counts as given when it passes the source's test \<open>if new_ssid\<close>,
  \<open>if password\<close>: it is neither \<open>None\<close> nor the empty string. That payload is what the
  log records as sent, and \<open>ssid\<close> returns \<open>True\<close> exactly when the write of its UTF-8
  encoding returns.
\<close>

theorem ssid_serializes_payload:
  assumes "usable lk (ssid_control_char lk) = Some ch"
    and "token \<noteq> []" and "active_token s = Some token"
    and "now - last_hold_time s \<le> TOKEN_EXPIRY_DURATION"
  shows "(new_ssid = None \<or> new_ssid = Some [] \<longrightarrow>
            ssid_payload token new_ssid password = token)
     \<and> (\<forall>n. new_ssid = Some n \<and> n \<noteq> [] \<and> (password = None \<or> password = Some []) \<longrightarrow>
            ssid_payload token new_ssid password = token @ str '','' @ n)
     \<and> (\<forall>n p. new_ssid = Some n \<and> n \<noteq> [] \<and> password = Some p \<and> p \<noteq> [] \<longrightarrow>
            ssid_payload token new_ssid password = token @ str '','' @ n @ str '','' @ p)
     \<and> fst (ssid lk tr now now' token new_ssid password s)
          = Returns (send tr ch (ssid_payload token new_ssid password) = Returns ())
     \<and> MsgStr ''Sending SSID command with payload: '' (ssid_payload token new_ssid password)
          \<in> set (log_messages (snd (ssid lk tr now now' token new_ssid password s)))"
proof -
  have v: "is_token_valid now token s = (Returns True, s)"
    using assms by (simp add: is_token_valid_fresh)
  have p: "(new_ssid = None \<or> new_ssid = Some [] \<longrightarrow>
            ssid_payload token new_ssid password = token)
     \<and> (\<forall>n. new_ssid = Some n \<and> n \<noteq> [] \<and> (password = None \<or> password = Some []) \<longrightarrow>
            ssid_payload token new_ssid password = token @ str '','' @ n)
     \<and> (\<forall>n p. new_ssid = Some n \<and> n \<noteq> [] \<and> password = Some p \<and> p \<noteq> [] \<longrightarrow>
            ssid_payload token new_ssid password = token @ str '','' @ n @ str '','' @ p)"
    by (auto simp add: ssid_payload_def Let_def)
  have r: "fst (ssid lk tr now now' token new_ssid password s)
          = Returns (send tr ch (ssid_payload token new_ssid password) = Returns ())"
    using assms(1) v by (simp add: ssid_def Let_def split: res.splits)
  have l: "MsgStr ''Sending SSID command with payload: '' (ssid_payload token new_ssid password)
          \<in> set (log_messages (snd (ssid lk tr now now' token new_ssid password s)))"
    using assms(1) v by (simp add: ssid_def Let_def log_m_def split: res.splits)
  from p r l show ?thesis by blast
qed

lemma send_expecting:
  "send (expecting (ascii ''AbC123Xy,net1,pass1'')) ch (str ''AbC123Xy,net1,pass1'') = Returns ()"
  by (simp add: send_def expecting_def encode_utf8_def str_def ascii_def enc_cp_def)

theorem ssid_serializes_payload_witness:
  "usable connected (ssid_control_char connected)
     = Some \<lparr>uuid = SSID_CONTROL_CHAR_UUID, properties = [''write'']\<rparr>
   \<and> str ''AbC123Xy'' \<noteq> [] \<and> active_token held = Some (str ''AbC123Xy'')
   \<and> 101 - last_hold_time held \<le> TOKEN_EXPIRY_DURATION
   \<and> ssid_payload (str ''AbC123Xy'') (Some (str ''net1'')) (Some (str ''pass1''))
       = str ''AbC123Xy,net1,pass1''
   \<and> ssid_payload (str ''AbC123Xy'') (Some (str ''net1'')) None = str ''AbC123Xy,net1''
   \<and> fst (ssid connected (expecting (ascii ''AbC123Xy,net1,pass1'')) 101 102 (str ''AbC123Xy'')
            (Some (str ''net1'')) (Some (str ''pass1'')) held) = Returns True"
proof -
  let ?ch = "\<lparr>uuid = SSID_CONTROL_CHAR_UUID, properties = [''write'']\<rparr>"
  note t = ssid_serializes_payload [OF connected_usable(3) conjunct2 [OF held_token]
      conjunct1 [OF held_token] held_fresh]
  have n: "str ''net1'' \<noteq> [] \<and> str ''pass1'' \<noteq> []" by (simp add: str_def)
  from t [of "Some (str ''net1'')" "Some (str ''pass1'')"] n
  have a: "ssid_payload (str ''AbC123Xy'') (Some (str ''net1'')) (Some (str ''pass1''))
       = str ''AbC123Xy'' @ str '','' @ str ''net1'' @ str '','' @ str ''pass1''"
    by blast
  from t [of "Some (str ''net1'')" None] n
  have b: "ssid_payload (str ''AbC123Xy'') (Some (str ''net1'')) None
       = str ''AbC123Xy'' @ str '','' @ str ''net1''"
    by blast
  have a': "ssid_payload (str ''AbC123Xy'') (Some (str ''net1'')) (Some (str ''pass1''))
       = str ''AbC123Xy,net1,pass1''"
    using a by (simp add: str_def)
  have b': "ssid_payload (str ''AbC123Xy'') (Some (str ''net1'')) None = str ''AbC123Xy,net1''"
    using b by (simp add: str_def)
  from t [of "Some (str ''net1'')" "Some (str ''pass1'')"
             "expecting (ascii ''AbC123Xy,net1,pass1'')" 102]
  have c: "fst (ssid connected (expecting (ascii ''AbC123Xy,net1,pass1'')) 101 102 (str ''AbC123Xy'')
            (Some (str ''net1'')) (Some (str ''pass1'')) held) = Returns True"
    by (simp add: a' send_expecting)
  from connected_usable(3) held_token held_fresh a' b' c show ?thesis by simp
qed

subsection \<open>Observation\<close>

text \<open>
  C8. \<open>get_state\<close> leaves every state as it is. When a non-empty token is stored and is
  older than \<open>TOKEN_EXPIRY_DURATION\<close>, the view it returns has no token, reports
  claiming as enabled and the token as expired, while the stored token, the stored
  \<open>claim_enabled\<close> and \<open>last_hold_time\<close> are what they were.
\<close>

theorem get_state_keeps_state:
  "snd (get_state lk now s) = s
   \<and> (\<forall>t. active_token s = Some t \<and> t \<noteq> [] \<and> now - last_hold_time s > TOKEN_EXPIRY_DURATION
        \<longrightarrow> view_active_token (fst (get_state lk now s)) = None
            \<and> view_claim_enabled (fst (get_state lk now s))
            \<and> view_token_expired (fst (get_state lk now s))
            \<and> active_token (snd (get_state lk now s)) = Some t
            \<and> claim_enabled (snd (get_state lk now s)) = claim_enabled s
            \<and> last_hold_time (snd (get_state lk now s)) = last_hold_time s)"
  by (simp add: get_state_def Let_def)

theorem get_state_keeps_state_witness:
  "active_token held = Some (str ''AbC123Xy'') \<and> str ''AbC123Xy'' \<noteq> []
   \<and> 104 - last_hold_time held > TOKEN_EXPIRY_DURATION
   \<and> snd (get_state connected 104 held) = held
   \<and> view_active_token (fst (get_state connected 104 held)) = None
   \<and> view_claim_enabled (fst (get_state connected 104 held))
   \<and> active_token (snd (get_state connected 104 held)) = Some (str ''AbC123Xy'')
   \<and> \<not> claim_enabled (snd (get_state connected 104 held))"
proof -
  have e: "\<not> claim_enabled held" by (simp add: held_eq)
  from get_state_keeps_state [of connected 104 held] held_token held_stale
  have "snd (get_state connected 104 held) = held
     \<and> view_active_token (fst (get_state connected 104 held)) = None
     \<and> view_claim_enabled (fst (get_state connected 104 held))
     \<and> active_token (snd (get_state connected 104 held)) = Some (str ''AbC123Xy'')
     \<and> claim_enabled (snd (get_state connected 104 held)) = claim_enabled held"
    by blast
  with e held_token held_stale show ?thesis by simp
qed


subsection \<open>Status notifications\<close>

lemma status_handler_decoded:
  "decode_utf8 data = Some txt \<Longrightarrow>
     default_status_handler data s =
       (Returns (),
        if py_in (str ''Expired'') (strip txt) \<or> py_in (str ''Reset'') (strip txt)
        then (log_m (MsgStr ''Status Notification Received: '' (strip txt))
                (s\<lparr>status := strip txt\<rparr>))\<lparr>active_token := None, claim_enabled := True\<rparr>
        else log_m (MsgStr ''Status Notification Received: '' (strip txt))
               (s\<lparr>status := strip txt\<rparr>))"
  by (simp add: default_status_handler_def Let_def log_m_def)

lemma status_handler_undecodable:
  "decode_utf8 data = None \<Longrightarrow> default_status_handler data s = (Raises UnicodeDecodeError, s)"
  by (simp add: default_status_handler_def)

lemma hold_without_token:
  "active_token s = None \<Longrightarrow> fst (hold lk tr now now' token s) = Returns False"
  by (simp add: hold_def is_token_valid_def split: option.splits)

text \<open>
  C9, as the code has it. For every status payload that decodes as UTF-8, the handler returns and the stored
  status is the decoded text with surrounding whitespace stripped; and if that text
  passes the source's marker test, \<open>"Expired" in status or "Reset" in status\<close>, the
  stored token is \<open>None\<close> and claiming is enabled afterwards, so that a \<open>hold\<close> made next
  with any token returns \<open>False\<close>.
\<close>

theorem status_notification_overwrites_and_clears:
  "decode_utf8 data = Some txt \<longrightarrow>
     fst (default_status_handler data s) = Returns ()
     \<and> status (snd (default_status_handler data s)) = strip txt
     \<and> (py_in (str ''Expired'') (strip txt) \<or> py_in (str ''Reset'') (strip txt) \<longrightarrow>
          active_token (snd (default_status_handler data s)) = None
          \<and> claim_enabled (snd (default_status_handler data s))
          \<and> fst (hold lk tr now now' token (snd (default_status_handler data s)))
              = Returns False)"
proof (intro impI)
  assume d: "decode_utf8 data = Some txt"
  have a: "fst (default_status_handler data s) = Returns ()
     \<and> status (snd (default_status_handler data s)) = strip txt"
    by (simp add: status_handler_decoded [OF d] log_m_def)
  have b: "py_in (str ''Expired'') (strip txt) \<or> py_in (str ''Reset'') (strip txt) \<longrightarrow>
          active_token (snd (default_status_handler data s)) = None
          \<and> claim_enabled (snd (default_status_handler data s))"
    by (simp add: status_handler_decoded [OF d] log_m_def)
  from a b hold_without_token [of "snd (default_status_handler data s)" lk tr now now' token]
  show "fst (default_status_handler data s) = Returns ()
     \<and> status (snd (default_status_handler data s)) = strip txt
     \<and> (py_in (str ''Expired'') (strip txt) \<or> py_in (str ''Reset'') (strip txt) \<longrightarrow>
          active_token (snd (default_status_handler data s)) = None
          \<and> claim_enabled (snd (default_status_handler data s))
          \<and> fst (hold lk tr now now' token (snd (default_status_handler data s)))
              = Returns False)"
    by blast
qed

lemma decode_Expired: "decode_utf8 (ascii ''Token Expired'') = Some (str ''Token Expired'')"
  by (simp add: decode_utf8_def ascii_def str_def)

lemma strip_Expired: "strip (str ''Token Expired'') = str ''Token Expired''"
  by (simp add: strip_def str_def isspace_def)

lemma in_Expired: "py_in (str ''Expired'') (str ''Token Expired'')"
  by (simp add: str_def)

theorem status_notification_overwrites_and_clears_witness:
  "decode_utf8 (ascii ''Token Expired'') = Some (str ''Token Expired'')
   \<and> py_in (str ''Expired'') (strip (str ''Token Expired''))
   \<and> active_token held = Some (str ''AbC123Xy'')
   \<and> fst (default_status_handler (ascii ''Token Expired'') held) = Returns ()
   \<and> status (snd (default_status_handler (ascii ''Token Expired'') held)) = str ''Token Expired''
   \<and> active_token (snd (default_status_handler (ascii ''Token Expired'') held)) = None
   \<and> claim_enabled (snd (default_status_handler (ascii ''Token Expired'') held))
   \<and> fst (hold connected (answering ''AbC123Xy'') 101 101 (str ''AbC123Xy'')
            (snd (default_status_handler (ascii ''Token Expired'') held))) = Returns False"
proof -
  have i: "py_in (str ''Expired'') (strip (str ''Token Expired''))"
    by (simp add: strip_Expired in_Expired)
  from status_notification_overwrites_and_clears
         [of "ascii ''Token Expired''" "str ''Token Expired''" held connected
             "answering ''AbC123Xy''" 101 101 "str ''AbC123Xy''"]
       decode_Expired i
  have "fst (default_status_handler (ascii ''Token Expired'') held) = Returns ()
   \<and> status (snd (default_status_handler (ascii ''Token Expired'') held))
       = strip (str ''Token Expired'')
   \<and> active_token (snd (default_status_handler (ascii ''Token Expired'') held)) = None
   \<and> claim_enabled (snd (default_status_handler (ascii ''Token Expired'') held))
   \<and> fst (hold connected (answering ''AbC123Xy'') 101 101 (str ''AbC123Xy'')
            (snd (default_status_handler (ascii ''Token Expired'') held))) = Returns False"
    by blast
  with decode_Expired i held_token show ?thesis by (simp add: strip_Expired)
qed

text \<open>
  C9 as the specification words it, for every inbound payload, fails on the single
  octet FF received by the session holding \<open>AbC123Xy\<close>: the octet is not UTF-8, the
  handler raises \<open>UnicodeDecodeError\<close> before its first assignment, and the stored
  status is still \<open>Idle\<close>, with the token and \<open>claim_enabled\<close> as they were.
\<close>

theorem status_notification_undecodable_counterexample:
  "decode_utf8 [255] = None
   \<and> default_status_handler [255] held = (Raises UnicodeDecodeError, held)
   \<and> status (snd (default_status_handler [255] held)) = str ''Idle''
   \<and> active_token (snd (default_status_handler [255] held)) = Some (str ''AbC123Xy'')
   \<and> \<not> claim_enabled (snd (default_status_handler [255] held))"
proof -
  have d: "decode_utf8 [255] = None"
    by (simp add: decode_utf8_def)
  have h: "default_status_handler [255] held = (Raises UnicodeDecodeError, held)"
    by (simp add: status_handler_undecodable [OF d])
  have f: "status held = str ''Idle'' \<and> active_token held = Some (str ''AbC123Xy'')
      \<and> \<not> claim_enabled held"
    by (simp add: held_eq)
  from d h f show ?thesis by simp
qed

text \<open>
  C10. The marker test is containment of the code points of \<open>Expired\<close> or of \<open>Reset\<close>,
  letter case included, anywhere in the decoded and stripped text: every payload whose
  text is some \<open>p\<close>, then one of the two words, then some \<open>q\<close> leaves the token
  \<open>None\<close> and claiming enabled; every payload with no such text (one that does not decode
  among them) leaves the stored token and \<open>claim_enabled\<close> as they were; and no payload
  changes \<open>last_hold_time\<close>.
\<close>

theorem status_marker_is_substring:
  "(\<forall>txt. decode_utf8 data = Some txt
          \<and> (\<exists>p q. strip txt = p @ str ''Expired'' @ q \<or> strip txt = p @ str ''Reset'' @ q)
        \<longrightarrow> active_token (snd (default_status_handler data s)) = None
            \<and> claim_enabled (snd (default_status_handler data s)))
   \<and> ((\<forall>txt. decode_utf8 data = Some txt
            \<longrightarrow> \<not> (\<exists>p q. strip txt = p @ str ''Expired'' @ q)
                \<and> \<not> (\<exists>p q. strip txt = p @ str ''Reset'' @ q))
        \<longrightarrow> active_token (snd (default_status_handler data s)) = active_token s
            \<and> claim_enabled (snd (default_status_handler data s)) = claim_enabled s)
   \<and> last_hold_time (snd (default_status_handler data s)) = last_hold_time s"
proof (intro conjI allI impI)
  fix t
  assume a: "decode_utf8 data = Some t
          \<and> (\<exists>p q. strip t = p @ str ''Expired'' @ q \<or> strip t = p @ str ''Reset'' @ q)"
  then have m: "py_in (str ''Expired'') (strip t) \<or> py_in (str ''Reset'') (strip t)"
    unfolding py_in_iff by blast
  from a have d: "decode_utf8 data = Some t" by simp
  from m show "active_token (snd (default_status_handler data s)) = None"
    by (simp add: status_handler_decoded [OF d] log_m_def)
  from m show "claim_enabled (snd (default_status_handler data s))"
    by (simp add: status_handler_decoded [OF d] log_m_def)
next
  assume n: "\<forall>t. decode_utf8 data = Some t
            \<longrightarrow> \<not> (\<exists>p q. strip t = p @ str ''Expired'' @ q)
                \<and> \<not> (\<exists>p q. strip t = p @ str ''Reset'' @ q)"
  show "active_token (snd (default_status_handler data s)) = active_token s"
  proof (cases "decode_utf8 data")
    case None
    then show ?thesis by (simp add: status_handler_undecodable)
  next
    case (Some t)
    with n have "\<not> py_in (str ''Expired'') (strip t) \<and> \<not> py_in (str ''Reset'') (strip t)"
      unfolding py_in_iff by blast
    then show ?thesis by (simp add: status_handler_decoded [OF Some] log_m_def)
  qed
  show "claim_enabled (snd (default_status_handler data s)) = claim_enabled s"
  proof (cases "decode_utf8 data")
    case None
    then show ?thesis by (simp add: status_handler_undecodable)
  next
    case (Some t)
    with n have "\<not> py_in (str ''Expired'') (strip t) \<and> \<not> py_in (str ''Reset'') (strip t)"
      unfolding py_in_iff by blast
    then show ?thesis by (simp add: status_handler_decoded [OF Some] log_m_def)
  qed
next
  show "last_hold_time (snd (default_status_handler data s)) = last_hold_time s"
    by (cases "decode_utf8 data")
       (simp_all add: status_handler_undecodable status_handler_decoded log_m_def)
qed

lemma decode_ResetComplete:
  "decode_utf8 (ascii '' ResetComplete '') = Some (str '' ResetComplete '')"
  by (simp add: decode_utf8_def ascii_def str_def)

lemma strip_ResetComplete: "strip (str '' ResetComplete '') = str ''Reset'' @ str ''Complete''"
  by (simp add: strip_def str_def isspace_def)

lemma decode_lower: "decode_utf8 (ascii ''reset, expired'') = Some (str ''reset, expired'')"
  by (simp add: decode_utf8_def ascii_def str_def)

lemma lower_no_marker:
  "\<not> py_in (str ''Expired'') (strip (str ''reset, expired''))
   \<and> \<not> py_in (str ''Reset'') (strip (str ''reset, expired''))"
  by (simp add: strip_def str_def isspace_def)

theorem status_marker_is_substring_witness:
  "decode_utf8 (ascii '' ResetComplete '') = Some (str '' ResetComplete '')
   \<and> strip (str '' ResetComplete '') = [] @ str ''Reset'' @ str ''Complete''
   \<and> active_token held = Some (str ''AbC123Xy'') \<and> \<not> claim_enabled held
   \<and> active_token (snd (default_status_handler (ascii '' ResetComplete '') held)) = None
   \<and> claim_enabled (snd (default_status_handler (ascii '' ResetComplete '') held))
   \<and> decode_utf8 (ascii ''reset, expired'') = Some (str ''reset, expired'')
   \<and> \<not> (\<exists>p q. strip (str ''reset, expired'') = p @ str ''Expired'' @ q)
   \<and> \<not> (\<exists>p q. strip (str ''reset, expired'') = p @ str ''Reset'' @ q)
   \<and> active_token (snd (default_status_handler (ascii ''reset, expired'') held))
       = Some (str ''AbC123Xy'')
   \<and> \<not> claim_enabled (snd (default_status_handler (ascii ''reset, expired'') held))"
proof -
  have e: "\<not> claim_enabled held" by (simp add: held_eq)
  have r: "strip (str '' ResetComplete '') = [] @ str ''Reset'' @ str ''Complete''"
    by (simp add: strip_ResetComplete)
  from status_marker_is_substring [of "ascii '' ResetComplete ''" held] decode_ResetComplete r
  have c: "active_token (snd (default_status_handler (ascii '' ResetComplete '') held)) = None
     \<and> claim_enabled (snd (default_status_handler (ascii '' ResetComplete '') held))"
    by blast
  have n: "\<not> (\<exists>p q. strip (str ''reset, expired'') = p @ str ''Expired'' @ q)
     \<and> \<not> (\<exists>p q. strip (str ''reset, expired'') = p @ str ''Reset'' @ q)"
    using lower_no_marker unfolding py_in_iff by blast
  with decode_lower
  have "\<forall>txt. decode_utf8 (ascii ''reset, expired'') = Some txt
            \<longrightarrow> \<not> (\<exists>p q. strip txt = p @ str ''Expired'' @ q)
                \<and> \<not> (\<exists>p q. strip txt = p @ str ''Reset'' @ q)"
    by simp
  with status_marker_is_substring [of "ascii ''reset, expired''" held]
  have u: "active_token (snd (default_status_handler (ascii ''reset, expired'') held))
       = active_token held
     \<and> claim_enabled (snd (default_status_handler (ascii ''reset, expired'') held))
       = claim_enabled held"
    by blast
  from decode_ResetComplete r held_token e c decode_lower n u show ?thesis by simp
qed


end
